theory Spec2Isabelle
  imports Complex_Main "HOL-Library.Log_Nat"
begin

section \<open>The storefront of main2.py: tables, module top level, order handlers\<close>

text \<open>
  The program is a Flask application over an SQLAlchemy store. Its tables become records
  (one row each) and the store a record of row lists. Python exceptions are values of
  \<open>error\<close>; a handler is a function from the committed store to its outcome and the store
  committed when it returned or raised.

  Record fields carry the table's name as a prefix where the column names of two tables
  coincide (\<open>Item.id\<close> is \<open>item_id\<close>, \<open>PlacedIn.item_id\<close> is \<open>placed_item_id\<close>,
  \<open>Order.user_id\<close> is \<open>order_user_id\<close>). A nullable column that the handlers leave unset is
  an \<open>option\<close>. A \<open>db.Float\<close> column holds a Python float, a binary64 number: its value
  is a real number, and arithmetic on such values rounds to the nearest binary64 number
  (see \<open>to_double\<close> below).
\<close>

subsection \<open>Exceptions and responses\<close>

datatype error =
    NameError
  | AttributeError
  | TypeError
  | UnmappedInstanceError
  | IntegrityError
  | HTTPException nat

subsection \<open>Rows and the store\<close>

record user =
  user_id :: int
  user_username :: string
  user_email_address :: string
  user_password :: string
  user_phone_number :: string
  user_type :: string
  user_shipping_provider_id :: "int option"

record item =
  item_id :: int
  item_img_url :: string
  item_name :: string
  item_price :: real
  item_sex :: string
  item_size :: string
  item_brand :: string
  item_type :: string
  item_weight :: real
  item_color :: string
  item_user_id :: "int option"
  item_inventory_id :: "int option"

record billing =
  billing_card_number :: string
  billing_expiry_date :: string
  billing_cvv :: string
  billing_user_id :: "int option"

record order =
  order_num :: int
  order_date :: "string option"
  order_total_price :: "real option"
  order_user_id :: "int option"
  order_shipping_provider_id :: "int option"

record placed_in =
  placed_item_id :: int
  placed_order_num :: int

record db =
  users :: "user list"
  items :: "item list"
  billings :: "billing list"
  orders :: "order list"
  placed :: "placed_in list"

datatype response =
    Render string
  | RenderOrder "item list" real
  | Redirect string
  | FlashRedirect string string

subsection \<open>The module's top level\<close>

text \<open>
  Loading the module runs its top-level statements in order. What matters for loading is,
  for each statement, which global names and which attributes of global objects it
  evaluates while it runs (a class body and the decorators of a \<open>def\<close> are evaluated, a
  function body is not), and which names it binds when it finishes. A name that is not
  bound raises NameError, an attribute an object does not have raises AttributeError.
  Which attributes the library objects offer is a parameter \<open>ha\<close> of the load.
\<close>

datatype rd = Name string | Attr string string

record stmt =
  reads :: "rd list"
  binds :: "string list"

definition import_stmt :: "string list \<Rightarrow> stmt" where
  "import_stmt ns = \<lparr>reads = [], binds = ns\<rparr>"

definition run_stmt :: "rd list \<Rightarrow> stmt" where
  "run_stmt rs = \<lparr>reads = rs, binds = []\<rparr>"

definition assign_stmt :: "string \<Rightarrow> rd list \<Rightarrow> stmt" where
  "assign_stmt n rs = \<lparr>reads = rs, binds = [n]\<rparr>"

text \<open>Column declarations of a class body: \<open>db.Column(db.T, ...)\<close>, with a foreign key,
  and \<open>relationship(...)\<close>.\<close>

definition col :: "string \<Rightarrow> rd list" where
  "col t = [Attr ''db'' ''Column'', Attr ''db'' t]"

definition fk_col :: "rd list" where
  "fk_col = [Attr ''db'' ''Column'', Attr ''db'' ''Integer'', Attr ''db'' ''ForeignKey'']"

definition rel :: "rd list" where
  "rel = [Name ''relationship'']"

definition class_PlacedIn :: stmt where
  "class_PlacedIn = \<lparr>reads = [Attr ''db'' ''Model'',
       Attr ''db'' ''Column'', Attr ''db'' ''Integer'', Attr ''db'' ''ForiegnKey'']
       @ fk_col,
     binds = [''PlacedIn'']\<rparr>"

definition class_User :: stmt where
  "class_User = \<lparr>reads = [Name ''UserMixin'', Attr ''db'' ''Model'']
       @ col ''Integer'' @ col ''String'' @ col ''String'' @ col ''String''
       @ col ''String'' @ col ''String''
       @ rel @ rel @ rel @ rel @ rel @ fk_col @ rel,
     binds = [''User'']\<rparr>"

definition class_Warehouse :: stmt where
  "class_Warehouse = \<lparr>reads = [Attr ''db'' ''Model'']
       @ col ''Integer'' @ col ''String'' @ col ''String''
       @ fk_col @ rel @ fk_col @ rel,
     binds = [''Warehouse'']\<rparr>"

definition class_Inventory :: stmt where
  "class_Inventory = \<lparr>reads = [Attr ''db'' ''Model'']
       @ col ''Integer'' @ col ''Integer'' @ col ''String''
       @ rel @ fk_col @ rel @ rel,
     binds = [''Inventory'']\<rparr>"

definition class_Item :: stmt where
  "class_Item = \<lparr>reads = [Attr ''db'' ''Model'']
       @ col ''Integer'' @ col ''String'' @ col ''String'' @ col ''Float''
       @ col ''String'' @ col ''String'' @ col ''String'' @ col ''String''
       @ col ''Float'' @ col ''String''
       @ fk_col @ rel @ fk_col @ rel
       @ [Name ''relationship'', Name ''association_table''],
     binds = [''Item'']\<rparr>"

definition class_Billing :: stmt where
  "class_Billing = \<lparr>reads = [Attr ''db'' ''Model'']
       @ col ''String'' @ col ''String'' @ col ''String'' @ fk_col @ rel,
     binds = [''Billing'']\<rparr>"

definition class_Order :: stmt where
  "class_Order = \<lparr>reads = [Attr ''db'' ''Model'']
       @ col ''Integer'' @ col ''String'' @ col ''Float''
       @ fk_col @ rel @ fk_col @ rel
       @ [Name ''relationship'', Name ''association_table''],
     binds = [''Order'']\<rparr>"

definition class_ShippingProvider :: stmt where
  "class_ShippingProvider = \<lparr>reads = [Attr ''db'' ''Model'']
       @ col ''Integer'' @ col ''String'' @ col ''Float'' @ rel @ rel,
     binds = [''ShippingProvider'']\<rparr>"

text \<open>A view function: \<open>@app.route(...)\<close> and the other decorators are evaluated when the
  \<open>def\<close> runs, the outermost expression first.\<close>

definition route_def :: "string \<Rightarrow> string list \<Rightarrow> stmt" where
  "route_def f decorators =
     \<lparr>reads = Attr ''app'' ''route'' # map Name decorators, binds = [f]\<rparr>"

definition imports_py :: "stmt list" where
  "imports_py =
    [import_stmt [''Flask'', ''render_template'', ''redirect'', ''url_for'', ''flash'', ''abort''],
     import_stmt [''Bootstrap''],
     import_stmt [''SQLAlchemy''],
     import_stmt [''relationship'', ''DeclarativeBase'', ''Mapped'', ''mapped_column'',
                  ''composite'', ''with_polymorphic''],
     import_stmt [''LoginManager'', ''UserMixin'', ''current_user'', ''login_required'',
                  ''login_user'', ''logout_user''],
     import_stmt [''generate_password_hash'', ''check_password_hash''],
     import_stmt [''load_dotenv''],
     import_stmt [''os''],
     import_stmt [''datetime''],
     import_stmt [''wraps''],
     import_stmt [''SignUpForm'', ''LoginForm'', ''ItemForm'', ''BillingForm'', ''OrderForm'']]"

definition setup_py :: "stmt list" where
  "setup_py =
    [assign_stmt ''CURRENT_YEAR'' [Attr ''datetime'' ''now''],
     run_stmt [Name ''load_dotenv''],
     assign_stmt ''app'' [Name ''Flask'', Name ''__name__''],
     run_stmt [Attr ''app'' ''config''],
     run_stmt [Attr ''app'' ''config''],
     run_stmt [Attr ''os'' ''environ'', Attr ''app'' ''config''],
     run_stmt [Name ''Bootstrap'', Name ''app''],
     assign_stmt ''db'' [Name ''SQLAlchemy'', Name ''app''],
     assign_stmt ''login_manager'' [Name ''LoginManager''],
     run_stmt [Attr ''login_manager'' ''init_app'', Name ''app''],
     \<lparr>reads = [], binds = [''admin_only'']\<rparr>,
     \<lparr>reads = [], binds = [''customer_only'']\<rparr>]"

definition models_py :: "stmt list" where
  "models_py =
    [class_PlacedIn, class_User, class_Warehouse, class_Inventory, class_Item,
     class_Billing, class_Order, class_ShippingProvider,
     run_stmt [Attr ''app'' ''app_context'', Attr ''db'' ''create_all'']]"

definition views_py :: "stmt list" where
  "views_py =
    [\<lparr>reads = [Attr ''login_manager'' ''user_loader''], binds = [''load_user'']\<rparr>,
     route_def ''home'' [],
     route_def ''sign_up'' [],
     route_def ''login'' [],
     route_def ''owner_add_item'' [''admin_only'', ''login_required''],
     route_def ''edit_item'' [''admin_only'', ''login_required''],
     route_def ''delete_item'' [''admin_only'', ''login_required''],
     route_def ''customer_add_item'' [''customer_only'', ''login_required''],
     route_def ''view_order'' [''customer_only'', ''login_required''],
     route_def ''delete_order_item'' [''customer_only'', ''login_required''],
     route_def ''edit_billing'' [''customer_only'', ''login_required''],
     \<lparr>reads = [Attr ''app'' ''route'', Name ''login_required''], binds = [''logout'']\<rparr>,
     run_stmt [Name ''__name__'']]"

definition module_stmts :: "stmt list" where
  "module_stmts = imports_py @ setup_py @ models_py @ views_py"

text \<open>The interpreter's own names that the top level reads.\<close>

definition builtins :: "string list" where
  "builtins = [''__name__'']"

fun eval_reads :: "(string \<Rightarrow> string \<Rightarrow> bool) \<Rightarrow> string list \<Rightarrow> rd list \<Rightarrow> error option" where
  "eval_reads ha env [] = None"
| "eval_reads ha env (Name n # rs) =
     (if n \<in> set env then eval_reads ha env rs else Some NameError)"
| "eval_reads ha env (Attr ob a # rs) =
     (if ob \<notin> set env then Some NameError
      else if ha ob a then eval_reads ha env rs
      else Some AttributeError)"

text \<open>Running the statements stops at the first exception; the result is that exception
  (or None) and the names bound at that moment.\<close>

fun exec_module :: "(string \<Rightarrow> string \<Rightarrow> bool) \<Rightarrow> string list \<Rightarrow> stmt list
    \<Rightarrow> error option \<times> string list" where
  "exec_module ha env [] = (None, env)"
| "exec_module ha env (st # sts) =
     (case eval_reads ha env (reads st) of
        Some e \<Rightarrow> (Some e, env)
      | None \<Rightarrow> exec_module ha (env @ binds st) sts)"

definition load_module :: "(string \<Rightarrow> string \<Rightarrow> bool) \<Rightarrow> error option \<times> string list" where
  "load_module ha = exec_module ha builtins module_stmts"

text \<open>The libraries as installed: every attribute the top level reads exists, except the
  misspelt \<open>db.ForiegnKey\<close>.\<close>

definition installed :: "string \<Rightarrow> string \<Rightarrow> bool" where
  "installed ob a = (\<not> (ob = ''db'' \<and> a = ''ForiegnKey''))"

text \<open>The four operations of the order subsystem are the three view functions below
  (submitting an order is the POST branch of \<open>view_order\<close>).\<close>

definition order_operations :: "string list" where
  "order_operations = [''customer_add_item'', ''view_order'', ''delete_order_item'']"

text \<open>The global names a handler can see when it is called: those the interpreter provides
  and those the module's statements bind.\<close>

definition module_globals :: "string list" where
  "module_globals = builtins @ concat (map binds module_stmts)"

subsection \<open>Handlers as state transformers that may raise\<close>

text \<open>
  A computation takes the committed store and gives either an exception or a value,
  together with the store committed at that moment. Every \<open>db.session.add\<close> and
  \<open>db.session.delete\<close> of the handlers below is directly followed by
  \<open>db.session.commit()\<close>, so each pair is one change of the committed store; what was
  committed before an exception stays committed.
\<close>

type_synonym 'a py = "db \<Rightarrow> (error + 'a) \<times> db"

definition ret :: "'a \<Rightarrow> 'a py" where
  "ret x s = (Inr x, s)"

definition raise :: "error \<Rightarrow> 'a py" where
  "raise e s = (Inl e, s)"

definition lift :: "error + 'a \<Rightarrow> 'a py" where
  "lift r s = (r, s)"

definition read_db :: "(db \<Rightarrow> 'a) \<Rightarrow> 'a py" where
  "read_db f s = (Inr (f s), s)"

definition bnd :: "'a py \<Rightarrow> ('a \<Rightarrow> 'b py) \<Rightarrow> 'b py" where
  "bnd m f s = (case m s of (Inl e, s') \<Rightarrow> (Inl e, s') | (Inr x, s') \<Rightarrow> f x s')"

subsection \<open>The ORM calls the handlers make\<close>

text \<open>
  What an expression of the handlers can evaluate to: a mapped row, an unresolved
  \<open>Query\<close> (the result of \<open>filter_by\<close> without \<open>.first()\<close>), a Python list (the result
  of \<open>.all()\<close>), or \<open>None\<close>.
\<close>

datatype 'r pyobj = Instance 'r | QueryObj "'r list" | ListObj "'r list" | NoneObj

text \<open>Reading a column attribute exists on a mapped row only.\<close>

definition getattr :: "('r \<Rightarrow> 'a) \<Rightarrow> 'r pyobj \<Rightarrow> error + 'a" where
  "getattr f ob = (case ob of Instance r \<Rightarrow> Inr (f r) | _ \<Rightarrow> Inl AttributeError)"

text \<open>Truth value in a condition: \<open>None\<close> and the empty list are false.\<close>

definition truthy :: "'r pyobj \<Rightarrow> bool" where
  "truthy ob = (case ob of NoneObj \<Rightarrow> False | ListObj xs \<Rightarrow> xs \<noteq> [] | _ \<Rightarrow> True)"

text \<open>\<open>query.first()\<close>: the first row or \<open>None\<close>.\<close>

definition first :: "'r list \<Rightarrow> 'r pyobj" where
  "first rows = (case rows of [] \<Rightarrow> NoneObj | r # _ \<Rightarrow> Instance r)"

text \<open>
  \<open>Query.get(ident)\<close> has the single positional parameter \<open>ident\<close>, the primary key: any
  other way of calling it (a keyword \<open>name=\<close> or \<open>id=\<close>) raises TypeError before a
  query is made.
\<close>

datatype pyarg = Pos int | Kw string

fun query_get :: "('r \<Rightarrow> int) \<Rightarrow> 'r list \<Rightarrow> pyarg list \<Rightarrow> error + 'r pyobj" where
  "query_get pk rows [Pos k] = Inr (first (filter (\<lambda>r. pk r = k) rows))"
| "query_get pk rows args = Inl TypeError"

text \<open>\<open>db.session.delete(x)\<close> accepts a mapped row only.\<close>

definition session_delete :: "'r pyobj \<Rightarrow> error + 'r" where
  "session_delete ob = (case ob of Instance r \<Rightarrow> Inr r | _ \<Rightarrow> Inl UnmappedInstanceError)"

text \<open>An integer primary key left unset is assigned by the store: one more than the largest
  key of the table, 1 in an empty table.\<close>

definition next_id :: "int list \<Rightarrow> int" where
  "next_id ks = (if ks = [] then 1 else Max (set ks) + 1)"

definition insert_order :: "(int \<Rightarrow> order) \<Rightarrow> order py" where
  "insert_order mk s =
     (let r = mk (next_id (map order_num (orders s)))
      in (Inr r, s\<lparr>orders := orders s @ [r]\<rparr>))"

definition insert_user :: "(int \<Rightarrow> user) \<Rightarrow> user py" where
  "insert_user mk s =
     (let r = mk (next_id (map user_id (users s)))
      in if user_email_address r \<in> user_email_address ` set (users s)
         then (Inl IntegrityError, s)
         else (Inr r, s\<lparr>users := users s @ [r]\<rparr>))"

definition insert_billing :: "billing \<Rightarrow> unit py" where
  "insert_billing r s =
     (if billing_card_number r \<in> billing_card_number ` set (billings s)
      then (Inl IntegrityError, s)
      else (Inr (), s\<lparr>billings := billings s @ [r]\<rparr>))"

definition insert_placed :: "placed_in \<Rightarrow> unit py" where
  "insert_placed r s =
     (if r \<in> set (placed s) then (Inl IntegrityError, s)
      else (Inr (), s\<lparr>placed := placed s @ [r]\<rparr>))"

text \<open>\<open>order_to_edit.total_price = t\<close> followed by a commit.\<close>

definition set_total_price :: "order pyobj \<Rightarrow> real \<Rightarrow> unit py" where
  "set_total_price ob t s =
     (case ob of
        Instance r \<Rightarrow>
          (Inr (), s\<lparr>orders := map (\<lambda>x. if order_num x = order_num r
                                        then x\<lparr>order_total_price := Some t\<rparr> else x)
                                  (orders s)\<rparr>)
      | _ \<Rightarrow> (Inl AttributeError, s))"

text \<open>Deleting an Item row also deletes its rows of the \<open>secondary\<close> table of the
  relationship it declares.\<close>

definition delete_item_row :: "item \<Rightarrow> unit py" where
  "delete_item_row r s =
     (Inr (), s\<lparr>items := filter (\<lambda>x. item_id x \<noteq> item_id r) (items s),
                placed := filter (\<lambda>p. placed_item_id p \<noteq> item_id r) (placed s)\<rparr>)"

text \<open>A global name read inside a function body is looked up when the body runs.\<close>

definition lookup_global :: "string \<Rightarrow> unit py" where
  "lookup_global n = (if n \<in> set module_globals then ret () else raise NameError)"

text \<open>\<open>Item.query.join(association_table).join(Order).filter(...).all()\<close>: the Item rows
  joined to the rows of \<open>placed_in\<close> that satisfy the filter and belong to an order.\<close>

definition join_items :: "db \<Rightarrow> (placed_in \<Rightarrow> bool) \<Rightarrow> item list" where
  "join_items s P =
     concat (map (\<lambda>i. concat (map (\<lambda>p.
        if item_id i = placed_item_id p \<and> P p
           \<and> placed_order_num p \<in> order_num ` set (orders s) then [i] else []) (placed s)))
        (items s))"

subsection \<open>Decorators and the current user\<close>

text \<open>\<open>current_user\<close> is a row of the user table, or the anonymous user (None here), which
  has neither \<open>type\<close> nor \<open>id\<close>.\<close>

definition current_user_attr :: "(user \<Rightarrow> 'a) \<Rightarrow> user option \<Rightarrow> error + 'a" where
  "current_user_attr f cu = (case cu of None \<Rightarrow> Inl AttributeError | Some u \<Rightarrow> Inr (f u))"

definition customer_only :: "user option \<Rightarrow> 'a py \<Rightarrow> 'a py" where
  "customer_only cu f =
     bnd (lift (current_user_attr user_type cu)) (\<lambda>t.
       if t \<noteq> ''Customer'' then raise (HTTPException 403) else f)"

definition login_required :: "user option \<Rightarrow> 'a py \<Rightarrow> 'a py" where
  "login_required cu f = (case cu of None \<Rightarrow> raise (HTTPException 401) | Some u \<Rightarrow> f)"

subsection \<open>Python floats\<close>

text \<open>
  A finite binary64 number is a multiple \<open>m * 2 ^ q\<close> of a power of two with
  \<open>\<bar>m\<bar> < 2 ^ 53\<close> and \<open>q \<ge> - 1074\<close>. Rounding a real number to binary64 scales it by
  \<open>2 ^ 1074\<close>, drops the bits beyond the 53 leading ones and rounds what is dropped to the
  nearest integer, a tie to the even one. Numbers beyond the largest finite binary64 number
  (about \<open>1.8 * 10 ^ 308\<close>), which Python turns into \<open>inf\<close>, are not told apart here.
\<close>

definition rne :: "real \<Rightarrow> int" where
  "rne y =
     (let n = \<lfloor>y\<rfloor>; r = y - of_int n
      in if r < 1 / 2 then n else if 1 / 2 < r then n + 1
         else if even n then n else n + 1)"

definition denorm_bits :: nat where
  "denorm_bits = 1074"

definition to_double :: "real \<Rightarrow> real" where
  "to_double x =
     (let y = \<bar>x\<bar> * 2 ^ denorm_bits;
          sh = nat (bitlen \<lfloor>y\<rfloor> - 53)
      in sgn x * (of_int (rne (y / 2 ^ sh)) * 2 ^ sh / 2 ^ denorm_bits))"

text \<open>\<open>float(x)\<close>, and the statement \<open>total_price += float(item.price)\<close> of the price
  loops (lines 653, 699 and 731).\<close>

definition py_float :: "real \<Rightarrow> real" where
  "py_float x = to_double x"

definition add_price :: "real \<Rightarrow> real \<Rightarrow> real" where
  "add_price tot pr = to_double (tot + py_float pr)"

subsection \<open>customer_add_item\<close>

text \<open>
  The forms module is not part of the source at hand: what a form contributes is the result
  of \<open>validate_on_submit()\<close> and the data of the fields the handler reads.
\<close>

record item_form =
  form_submitted :: bool
  form_name :: string

text \<open>The loop \<open>for item_order in all_item_order_combos\<close> over rows of \<open>placed_in\<close>:
  \<open>item = Item.query.get(id=item_order.item_id); total_price += float(item.price)\<close>.\<close>

fun price_loop_placed :: "item list \<Rightarrow> placed_in list \<Rightarrow> real \<Rightarrow> error + real" where
  "price_loop_placed its [] tot = Inr tot"
| "price_loop_placed its (p # ps) tot =
     (case query_get item_id its [Kw ''id''] of
        Inl e \<Rightarrow> Inl e
      | Inr it \<Rightarrow>
          (case getattr item_price it of
             Inl e \<Rightarrow> Inl e
           | Inr pr \<Rightarrow> price_loop_placed its ps (add_price tot pr)))"

text \<open>The same loop over the Item rows of a join: \<open>item_order\<close> is then an Item, and the
  class Item declares no attribute \<open>item_id\<close>, so evaluating the argument
  \<open>item_order.item_id\<close> raises before \<open>get\<close> is called. The second component collects
  \<open>order_items\<close> (only \<open>view_order\<close> uses it).\<close>

definition item_row_item_id :: "item \<Rightarrow> error + int" where
  "item_row_item_id it = Inl AttributeError"

fun price_loop_items :: "item list \<Rightarrow> item list \<Rightarrow> real \<times> item list
    \<Rightarrow> error + real \<times> item list" where
  "price_loop_items its [] acc = Inr acc"
| "price_loop_items its (r # rs) acc =
     (case item_row_item_id r of
        Inl e \<Rightarrow> Inl e
      | Inr k \<Rightarrow>
          (case query_get item_id its [Kw ''id''] of
             Inl e \<Rightarrow> Inl e
           | Inr it \<Rightarrow>
               (case getattr item_price it of
                  Inl e \<Rightarrow> Inl e
                | Inr pr \<Rightarrow>
                    (case getattr (\<lambda>x. x) it of
                       Inl e \<Rightarrow> Inl e
                     | Inr x \<Rightarrow>
                         price_loop_items its rs (add_price (fst acc) pr, snd acc @ [x])))))"

text \<open>The branch taken when \<open>Order.query.filter_by(user_id=current_user.id).first() and
  Item.query.get(name=item_name)\<close> is true (lines 626 to 665).\<close>

definition existing_order_branch :: "user option \<Rightarrow> string \<Rightarrow> response py" where
  "existing_order_branch cu name_data =
     bnd (lift (current_user_attr user_id cu)) (\<lambda>uid.
     bnd (read_db (\<lambda>s. QueryObj (filter (\<lambda>x. order_user_id x = Some uid) (orders s))))
       (\<lambda>matching_order.
     bnd (\<lambda>s. lift (query_get item_id (items s) [Kw ''name'']) s) (\<lambda>matching_item.
     bnd (lift (getattr item_id matching_item)) (\<lambda>mid.
     bnd (lift (getattr order_num matching_order)) (\<lambda>onum.
     bnd (insert_placed \<lparr>placed_item_id = mid, placed_order_num = onum\<rparr>) (\<lambda>_.
     bnd (lift (current_user_attr user_id cu)) (\<lambda>uid'.
     bnd (read_db (\<lambda>s. filter (\<lambda>p. placed_order_num p = uid') (placed s)))
       (\<lambda>all_item_order_combos.
     bnd (\<lambda>s. lift (price_loop_placed (items s) all_item_order_combos 0) s) (\<lambda>total_price.
     bnd (lift (getattr order_num matching_order)) (\<lambda>onum'.
     bnd (\<lambda>s. lift (query_get order_num (orders s) [Pos onum']) s) (\<lambda>order_to_edit.
     bnd (set_total_price order_to_edit total_price) (\<lambda>_.
     ret (FlashRedirect ''Item added to order!'' ''view_order'')))))))))))))"

text \<open>The \<open>else\<close> branch (lines 667 to 710); \<open>now\<close> is
  \<open>datetime.now().strftime(...)\<close>. The insertion into \<open>placed_in\<close> is commented out in
  the source of this branch.\<close>

definition new_order_branch :: "user option \<Rightarrow> string \<Rightarrow> string \<Rightarrow> response py" where
  "new_order_branch cu name_data now =
     bnd (lift (current_user_attr user_id cu)) (\<lambda>uid.
     bnd (insert_order (\<lambda>n. \<lparr>order_num = n, order_date = Some now,
            order_total_price = Some 0, order_user_id = Some uid,
            order_shipping_provider_id = Some 1\<rparr>)) (\<lambda>new_order.
     bnd (\<lambda>s. lift (query_get item_id (items s) [Kw ''name'']) s) (\<lambda>matching_item.
     bnd (lookup_global ''association_table'') (\<lambda>_.
     bnd (read_db (\<lambda>s. join_items s (\<lambda>p. placed_order_num p = order_num new_order)))
       (\<lambda>all_item_order_combos.
     bnd (\<lambda>s. lift (price_loop_items (items s) all_item_order_combos (0, [])) s) (\<lambda>acc.
     bnd (\<lambda>s. lift (query_get order_num (orders s) [Pos (order_num new_order)]) s)
       (\<lambda>order_to_edit.
     bnd (set_total_price order_to_edit (fst acc)) (\<lambda>_.
     ret (FlashRedirect ''Item added to order!'' ''view_order'')))))))))"

text \<open>The body of the view function. In \<open>A and B\<close> the operand \<open>B\<close> is evaluated only
  when \<open>A\<close> is true.\<close>

definition customer_add_item_body :: "user option \<Rightarrow> int \<Rightarrow> item_form \<Rightarrow> string
    \<Rightarrow> response py" where
  "customer_add_item_body cu iid form now =
     bnd (\<lambda>s. lift (query_get item_id (items s) [Pos iid]) s) (\<lambda>item_to_add.
     bnd (lift (getattr item_name item_to_add)) (\<lambda>_.
     if form_submitted form then
       bnd (lift (current_user_attr user_id cu)) (\<lambda>uid.
       bnd (read_db (\<lambda>s. first (filter (\<lambda>x. order_user_id x = Some uid) (orders s))))
         (\<lambda>existing.
       bnd (if truthy existing
            then bnd (\<lambda>s. lift (query_get item_id (items s) [Kw ''name'']) s)
                   (\<lambda>found. ret (truthy found))
            else ret False) (\<lambda>cond.
       if cond then existing_order_branch cu (form_name form)
       else new_order_branch cu (form_name form) now)))
     else ret (Render ''customer-add-item.html'')))"

definition customer_add_item :: "user option \<Rightarrow> int \<Rightarrow> item_form \<Rightarrow> string
    \<Rightarrow> response py" where
  "customer_add_item cu iid form now =
     customer_only cu (login_required cu (customer_add_item_body cu iid form now))"

subsection \<open>view_order (and submitting the order)\<close>

fun delete_item_rows :: "item list \<Rightarrow> unit py" where
  "delete_item_rows [] = ret ()"
| "delete_item_rows (r # rs) = bnd (delete_item_row r) (\<lambda>_. delete_item_rows rs)"

text \<open>\<open>submitted\<close> is the result of \<open>order_form.validate_on_submit()\<close>.\<close>

definition view_order_body :: "user option \<Rightarrow> bool \<Rightarrow> response py" where
  "view_order_body cu submitted =
     bnd (lift (current_user_attr user_id cu)) (\<lambda>uid.
     bnd (read_db (\<lambda>s. first (filter (\<lambda>x. order_user_id x = Some uid) (orders s))))
       (\<lambda>order_to_view.
     bnd (lookup_global ''association_table'') (\<lambda>_.
     bnd (lift (getattr order_num order_to_view)) (\<lambda>onum.
     bnd (read_db (\<lambda>s. join_items s (\<lambda>p. placed_order_num p = onum)))
       (\<lambda>all_item_order_combos.
     bnd (\<lambda>s. lift (price_loop_items (items s) all_item_order_combos (0, [])) s) (\<lambda>acc.
     if submitted then
       bnd (lookup_global ''association_table'') (\<lambda>_.
       bnd (lift (getattr order_num order_to_view)) (\<lambda>onum'.
       bnd (read_db (\<lambda>s. join_items s (\<lambda>p. placed_order_num p = onum')))
         (\<lambda>records_to_delete.
       bnd (delete_item_rows records_to_delete) (\<lambda>_.
       bnd (lift (current_user_attr user_id cu)) (\<lambda>uid'.
       bnd (read_db (\<lambda>s. first (filter (\<lambda>x. order_user_id x = Some uid') (orders s))))
         (\<lambda>order_to_delete_from.
       ret (Render ''order-submitted.html'')))))))
     else ret (RenderOrder (snd acc) (fst acc))))))))"

definition view_order :: "user option \<Rightarrow> bool \<Rightarrow> response py" where
  "view_order cu submitted =
     customer_only cu (login_required cu (view_order_body cu submitted))"

subsection \<open>delete_order_item\<close>

definition delete_order_item_body :: "user option \<Rightarrow> int \<Rightarrow> response py" where
  "delete_order_item_body cu iid =
     bnd (\<lambda>s. lift (query_get item_id (items s) [Pos iid]) s) (\<lambda>item_to_delete.
     bnd (lift (current_user_attr user_id cu)) (\<lambda>uid.
     bnd (read_db (\<lambda>s. first (filter (\<lambda>x. order_user_id x = Some uid) (orders s))))
       (\<lambda>order_to_delete_from.
     bnd (lookup_global ''association_table'') (\<lambda>_.
     bnd (lift (getattr item_id item_to_delete)) (\<lambda>k.
     bnd (lift (getattr order_num order_to_delete_from)) (\<lambda>onum.
     bnd (read_db (\<lambda>s. ListObj (join_items s
            (\<lambda>p. placed_item_id p = k \<and> placed_order_num p = onum))))
       (\<lambda>record_to_delete.
     bnd (lift (session_delete record_to_delete)) (\<lambda>r.
     bnd (delete_item_row r) (\<lambda>_.
     bnd (lift (current_user_attr user_username cu)) (\<lambda>_.
     ret (Redirect ''view_order'')))))))))))"

definition delete_order_item :: "user option \<Rightarrow> int \<Rightarrow> response py" where
  "delete_order_item cu iid =
     customer_only cu (login_required cu (delete_order_item_body cu iid))"

subsection \<open>sign_up\<close>

record signup_form =
  su_submitted :: bool
  su_username :: string
  su_email :: string
  su_password_hash :: string
  su_phone_number :: string
  su_type :: string
  su_card_number :: string
  su_expiry_date :: string
  su_cvv :: string

text \<open>\<open>su_password_hash\<close> is the result of \<open>generate_password_hash\<close> on the password
  field. The handler builds \<open>new_order = Order(user_id=new_user.id)\<close> and never adds it to
  the session, so no Order row is stored.\<close>

definition sign_up :: "signup_form \<Rightarrow> response py" where
  "sign_up form =
     (if su_submitted form then
        bnd (read_db (\<lambda>s. first (filter (\<lambda>u. user_email_address u = su_email form) (users s))))
          (\<lambda>existing.
        if truthy existing then
          ret (FlashRedirect
            ''Sorry, this email has already been registered. Please log in instead.'' ''login'')
        else
          bnd (insert_user (\<lambda>n. \<lparr>user_id = n, user_username = su_username form,
                 user_email_address = su_email form, user_password = su_password_hash form,
                 user_phone_number = su_phone_number form, user_type = su_type form,
                 user_shipping_provider_id = Some 1\<rparr>)) (\<lambda>new_user.
          bnd (insert_billing \<lparr>billing_card_number = su_card_number form,
                 billing_expiry_date = su_expiry_date form, billing_cvv = su_cvv form,
                 billing_user_id = Some (user_id new_user)\<rparr>) (\<lambda>_.
          ret (Redirect ''home''))))
      else ret (Render ''signup.html''))"

subsection \<open>Requests and runs\<close>

datatype request =
    SignUp signup_form
  | AddItem "user option" int item_form string
  | ViewOrder "user option" bool
  | DeleteOrderItem "user option" int

fun handle :: "request \<Rightarrow> response py" where
  "handle (SignUp form) = sign_up form"
| "handle (AddItem cu iid form now) = customer_add_item cu iid form now"
| "handle (ViewOrder cu submitted) = view_order cu submitted"
| "handle (DeleteOrderItem cu iid) = delete_order_item cu iid"

text \<open>The store after a request, whether the handler returned or raised, and after a
  sequence of requests.\<close>

definition step :: "db \<Rightarrow> request \<Rightarrow> db" where
  "step s r = snd (handle r s)"

definition run :: "db \<Rightarrow> request list \<Rightarrow> db" where
  "run s rs = foldl step s rs"

definition empty_db :: db where
  "empty_db = \<lparr>users = [], items = [], billings = [], orders = [], placed = []\<rparr>"

subsection \<open>The properties of the order data\<close>

text \<open>The rows of \<open>placed_in\<close> of an order, the Item rows they are joined to, and the sum
  of their prices.\<close>

definition line_items :: "db \<Rightarrow> int \<Rightarrow> placed_in list" where
  "line_items s n = filter (\<lambda>p. placed_order_num p = n) (placed s)"

definition line_total :: "db \<Rightarrow> int \<Rightarrow> real" where
  "line_total s n =
     sum_list (map item_price
       (concat (map (\<lambda>p. filter (\<lambda>i. item_id i = placed_item_id p) (items s))
                    (line_items s n))))"

definition total_consistent :: "db \<Rightarrow> bool" where
  "total_consistent s =
     list_all (\<lambda>x. order_total_price x = Some (line_total s (order_num x))) (orders s)"


text \<open>The orders of a customer. No handler deletes an Order row or marks it as submitted,
  so every stored order is open.\<close>

definition open_orders :: "db \<Rightarrow> int \<Rightarrow> order list" where
  "open_orders s uid = filter (\<lambda>x. order_user_id x = Some uid) (orders s)"

definition one_open_order :: "db \<Rightarrow> bool" where
  "one_open_order s = distinct (List.map_filter order_user_id (orders s))"

definition is_customer :: "user option \<Rightarrow> bool" where
  "is_customer cu = (case cu of None \<Rightarrow> False | Some u \<Rightarrow> user_type u = ''Customer'')"

definition in_open_order :: "db \<Rightarrow> int \<Rightarrow> int \<Rightarrow> bool" where
  "in_open_order s uid iid =
     list_ex (\<lambda>p. placed_item_id p = iid
        \<and> list_ex (\<lambda>x. order_num x = placed_order_num p) (open_orders s uid)) (placed s)"

text \<open>The Order row that the \<open>else\<close> branch of \<open>customer_add_item\<close> stores.\<close>

definition added_order :: "db \<Rightarrow> int \<Rightarrow> string \<Rightarrow> order" where
  "added_order s uid now =
     \<lparr>order_num = next_id (map order_num (orders s)), order_date = Some now,
      order_total_price = Some 0, order_user_id = Some uid,
      order_shipping_provider_id = Some 1\<rparr>"

text \<open>The statements of the module before and after the class Item.\<close>

definition before_Item :: "stmt list" where
  "before_Item =
     imports_py @ setup_py @ [class_PlacedIn, class_User, class_Warehouse, class_Inventory]"

definition after_Item :: "stmt list" where
  "after_Item =
     [class_Billing, class_Order, class_ShippingProvider,
      run_stmt [Attr ''app'' ''app_context'', Attr ''db'' ''create_all'']] @ views_py"

subsection \<open>Example data\<close>

definition customer :: "int \<Rightarrow> user" where
  "customer n =
     \<lparr>user_id = n, user_username = ''c'', user_email_address = ''c@example.org'',
      user_password = ''h'', user_phone_number = ''0'', user_type = ''Customer'',
      user_shipping_provider_id = Some 1\<rparr>"

definition shirt :: item where
  "shirt =
     \<lparr>item_id = 1, item_img_url = ''shirt.png'', item_name = ''Shirt'', item_price = 20,
      item_sex = ''U'', item_size = ''M'', item_brand = ''B'', item_type = ''Shirt'',
      item_weight = 1, item_color = ''Blue'', item_user_id = Some 1,
      item_inventory_id = Some 1\<rparr>"

text \<open>A shop with one item and no order, and the same shop where customer 7 has an order
  holding the item.\<close>

definition shop_db :: db where
  "shop_db =
     \<lparr>users = [customer 7, customer 8], items = [shirt], billings = [], orders = [],
      placed = []\<rparr>"

definition cart_db :: db where
  "cart_db =
     shop_db\<lparr>orders := [\<lparr>order_num = 1, order_date = Some ''May 01'',
                order_total_price = Some 20, order_user_id = Some 7,
                order_shipping_provider_id = Some 1\<rparr>],
             placed := [\<lparr>placed_item_id = 1, placed_order_num = 1\<rparr>]\<rparr>"

text \<open>The store \<open>cart_db\<close> after the owner changed the shirt's price to 30 (the
  \<open>edit_item\<close> view writes \<open>item_to_edit.price\<close> and nothing else), and \<open>cart_db\<close> with a
  second item that is in no order.\<close>

definition repriced_db :: db where
  "repriced_db = cart_db\<lparr>items := [shirt\<lparr>item_price := 30\<rparr>]\<rparr>"

definition hat :: item where
  "hat =
     \<lparr>item_id = 2, item_img_url = ''hat.png'', item_name = ''Hat'', item_price = 5,
      item_sex = ''U'', item_size = ''M'', item_brand = ''B'', item_type = ''Hat'',
      item_weight = 1, item_color = ''Red'', item_user_id = Some 1,
      item_inventory_id = Some 1\<rparr>"

definition two_item_db :: db where
  "two_item_db = cart_db\<lparr>items := [shirt, hat]\<rparr>"

definition post_form :: item_form where
  "post_form = \<lparr>form_submitted = True, form_name = ''Shirt''\<rparr>"

definition new_customer_form :: signup_form where
  "new_customer_form =
     \<lparr>su_submitted = True, su_username = ''d'', su_email = ''d@example.org'',
      su_password_hash = ''h'', su_phone_number = ''1'', su_type = ''Customer'',
      su_card_number = ''4000'', su_expiry_date = ''01/30'', su_cvv = ''000''\<rparr>"

section \<open>Basic facts\<close>

subsection \<open>The module's names\<close>

lemmas stmt_defs =
  import_stmt_def run_stmt_def assign_stmt_def route_def_def
  class_PlacedIn_def class_User_def class_Warehouse_def class_Inventory_def class_Item_def
  class_Billing_def class_Order_def class_ShippingProvider_def col_def fk_col_def rel_def

lemma association_table_unbound: "''association_table'' \<notin> set module_globals"
  by (simp add: module_globals_def builtins_def module_stmts_def imports_py_def setup_py_def
      models_py_def views_py_def stmt_defs)

lemma lookup_association_table: "lookup_global ''association_table'' = raise NameError"
  by (simp add: lookup_global_def association_table_unbound)

lemma eval_reads_unbound:
  "Name n \<in> set rs \<Longrightarrow> n \<notin> set env \<Longrightarrow> eval_reads ha env rs \<noteq> None"
proof (induction rs)
  case Nil
  then show ?case by simp
next
  case (Cons r rs)
  then show ?case by (cases r) auto
qed

text \<open>A statement that reads a name bound neither at the start nor by an earlier statement
  is never passed: the run fails at it or before it.\<close>

lemma exec_module_unbound:
  assumes "Name n \<in> set (reads st)" "n \<notin> set env" "n \<notin> set (concat (map binds pre))"
  shows "fst (exec_module ha env (pre @ st # post)) \<noteq> None
       \<and> set (snd (exec_module ha env (pre @ st # post)))
           \<subseteq> set env \<union> set (concat (map binds pre))"
  using assms
proof (induction pre arbitrary: env)
  case Nil
  then show ?case using eval_reads_unbound [of n "reads st" env ha] by auto
next
  case (Cons a pre)
  show ?case
  proof (cases "eval_reads ha env (reads a)")
    case None
    have "n \<notin> set (env @ binds a)" using Cons.prems by simp
    with Cons.IH [of "env @ binds a"] Cons.prems None show ?thesis by auto
  next
    case (Some e)
    then show ?thesis by simp
  qed
qed

lemma module_stmts_split: "module_stmts = before_Item @ class_Item # after_Item"
  by (simp add: module_stmts_def before_Item_def after_Item_def models_py_def)

lemma binds_before_Item:
  "concat (map binds before_Item) =
    [''Flask'', ''render_template'', ''redirect'', ''url_for'', ''flash'', ''abort'',
     ''Bootstrap'', ''SQLAlchemy'', ''relationship'', ''DeclarativeBase'', ''Mapped'',
     ''mapped_column'', ''composite'', ''with_polymorphic'', ''LoginManager'', ''UserMixin'',
     ''current_user'', ''login_required'', ''login_user'', ''logout_user'',
     ''generate_password_hash'', ''check_password_hash'', ''load_dotenv'', ''os'', ''datetime'',
     ''wraps'', ''SignUpForm'', ''LoginForm'', ''ItemForm'', ''BillingForm'', ''OrderForm'',
     ''CURRENT_YEAR'', ''app'', ''db'', ''login_manager'', ''admin_only'', ''customer_only'',
     ''PlacedIn'', ''User'', ''Warehouse'', ''Inventory'']"
  by (simp add: before_Item_def imports_py_def setup_py_def stmt_defs)

lemma load_module_fails:
  "fst (load_module ha) \<noteq> None \<and>
   set (snd (load_module ha)) \<subseteq> set builtins \<union> set (concat (map binds before_Item))"
  unfolding load_module_def module_stmts_split
  by (rule exec_module_unbound [where n = "''association_table''"])
     (simp_all add: binds_before_Item builtins_def, simp add: class_Item_def)

lemma load_installed:
  "load_module installed = (Some AttributeError,
    [''__name__'', ''Flask'', ''render_template'', ''redirect'', ''url_for'', ''flash'', ''abort'',
     ''Bootstrap'', ''SQLAlchemy'', ''relationship'', ''DeclarativeBase'', ''Mapped'',
     ''mapped_column'', ''composite'', ''with_polymorphic'', ''LoginManager'', ''UserMixin'',
     ''current_user'', ''login_required'', ''login_user'', ''logout_user'',
     ''generate_password_hash'', ''check_password_hash'', ''load_dotenv'', ''os'', ''datetime'',
     ''wraps'', ''SignUpForm'', ''LoginForm'', ''ItemForm'', ''BillingForm'', ''OrderForm'',
     ''CURRENT_YEAR'', ''app'', ''db'', ''login_manager'', ''admin_only'', ''customer_only''])"
  by (simp add: load_module_def module_stmts_def imports_py_def setup_py_def models_py_def
      builtins_def stmt_defs installed_def)

subsection \<open>Sequencing\<close>

lemma bnd_raise [simp]: "bnd (raise e) f = raise e"
  by (rule ext) (simp add: bnd_def raise_def)

lemma bnd_ret [simp]: "bnd (ret x) f = f x"
  by (rule ext) (simp add: bnd_def ret_def)

lemma bnd_lift_Inl [simp]: "bnd (lift (Inl e)) f = raise e"
  by (rule ext) (simp add: bnd_def lift_def raise_def)

lemma bnd_lift_Inr [simp]: "bnd (lift (Inr x)) f = f x"
  by (rule ext) (simp add: bnd_def lift_def)

lemma bnd_read_db [simp]: "bnd (read_db g) f s = f (g s) s"
  by (simp add: bnd_def read_db_def)

lemma bnd_lift_state [simp]:
  "bnd (\<lambda>s. lift (g s) s) f s = (case g s of Inl e \<Rightarrow> (Inl e, s) | Inr x \<Rightarrow> f x s)"
  by (simp add: bnd_def lift_def split: sum.splits)

lemma truthy_first: "truthy (first xs) \<longleftrightarrow> xs \<noteq> []"
  by (simp add: first_def truthy_def split: list.splits)

subsection \<open>What each handler does to the store\<close>

lemma delete_order_item_cases:
  "delete_order_item cu iid s =
     (case cu of None \<Rightarrow> (Inl AttributeError, s)
      | Some u \<Rightarrow>
          if user_type u \<noteq> ''Customer'' then (Inl (HTTPException 403), s)
          else (Inl NameError, s))"
  by (cases cu)
     (auto simp: delete_order_item_def delete_order_item_body_def customer_only_def
        login_required_def current_user_attr_def lookup_association_table raise_def
        split: sum.splits)

lemma view_order_cases:
  "view_order cu b s =
     (case cu of None \<Rightarrow> (Inl AttributeError, s)
      | Some u \<Rightarrow>
          if user_type u \<noteq> ''Customer'' then (Inl (HTTPException 403), s)
          else (Inl NameError, s))"
  by (cases cu)
     (auto simp: view_order_def view_order_body_def customer_only_def
        login_required_def current_user_attr_def lookup_association_table raise_def
        split: sum.splits)

lemma existing_order_branch_result:
  "existing_order_branch (Some u) nm s = (Inl TypeError, s)"
  by (simp add: existing_order_branch_def current_user_attr_def raise_def)

lemma new_order_branch_result:
  "new_order_branch (Some u) nm now s =
     (Inl TypeError, s\<lparr>orders := orders s @ [added_order s (user_id u) now]\<rparr>)"
  by (simp add: new_order_branch_def current_user_attr_def bnd_def insert_order_def
      lift_def Let_def added_order_def)

lemma customer_add_item_body_cases:
  "customer_add_item_body (Some u) iid form now s =
     (if filter (\<lambda>r. item_id r = iid) (items s) = [] then (Inl AttributeError, s)
      else if \<not> form_submitted form then (Inr (Render ''customer-add-item.html''), s)
      else if open_orders s (user_id u) \<noteq> [] then (Inl TypeError, s)
      else (Inl TypeError, s\<lparr>orders := orders s @ [added_order s (user_id u) now]\<rparr>))"
  by (auto simp: customer_add_item_body_def current_user_attr_def open_orders_def
      new_order_branch_result first_def truthy_def getattr_def raise_def ret_def
      split: sum.splits list.splits)

lemma customer_add_item_cases:
  "customer_add_item cu iid form now s =
     (case cu of None \<Rightarrow> (Inl AttributeError, s)
      | Some u \<Rightarrow>
         if user_type u \<noteq> ''Customer'' then (Inl (HTTPException 403), s)
         else customer_add_item_body (Some u) iid form now s)"
  by (simp add: customer_add_item_def customer_only_def login_required_def
      current_user_attr_def raise_def split: option.splits)

lemma sign_up_frame:
  "orders (snd (sign_up form s)) = orders s \<and> placed (snd (sign_up form s)) = placed s
   \<and> items (snd (sign_up form s)) = items s"
  by (simp add: sign_up_def bnd_def read_db_def insert_user_def insert_billing_def ret_def
      Let_def split: sum.splits prod.splits if_splits del: bnd_read_db)

text \<open>A request leaves the three order tables as they are, or appends one Order row for a
  customer who had none.\<close>

lemma step_cases:
  "orders (step s r) = orders s \<and> placed (step s r) = placed s \<and> items (step s r) = items s
   \<or> (\<exists>uid now. open_orders s uid = [] \<and>
        step s r = s\<lparr>orders := orders s @ [added_order s uid now]\<rparr>)"
proof (cases r)
  case (SignUp form)
  then show ?thesis using sign_up_frame [of form s] by (simp add: step_def)
next
  case (AddItem cu iid form now)
  then show ?thesis
    by (auto simp: step_def customer_add_item_cases customer_add_item_body_cases
        split: option.splits)
next
  case (ViewOrder cu b)
  then show ?thesis by (simp add: step_def view_order_cases split: option.splits)
next
  case (DeleteOrderItem cu iid)
  then show ?thesis by (simp add: step_def delete_order_item_cases split: option.splits)
qed

lemma step_ViewOrder: "step s (ViewOrder cu b) = s"
  by (simp add: step_def view_order_cases split: option.splits)

lemma step_DeleteOrderItem: "step s (DeleteOrderItem cu iid) = s"
  by (simp add: step_def delete_order_item_cases split: option.splits)

subsection \<open>Fresh keys and the order totals\<close>



subsection \<open>One order per customer\<close>

lemma set_map_filter: "set (List.map_filter f xs) = {y. \<exists>x\<in>set xs. f x = Some y}"
  by (induction xs) (auto split: option.splits)

lemma map_filter_snoc:
  "List.map_filter f (xs @ [x]) =
     List.map_filter f xs @ (case f x of None \<Rightarrow> [] | Some y \<Rightarrow> [y])"
  by (induction xs) (auto split: option.splits)

lemma added_order_one_open:
  assumes "one_open_order s" "open_orders s uid = []"
  shows "one_open_order (s\<lparr>orders := orders s @ [added_order s uid now]\<rparr>)"
proof -
  have "uid \<notin> set (List.map_filter order_user_id (orders s))"
    using assms(2) by (auto simp: set_map_filter open_orders_def filter_empty_conv)
  then show ?thesis
    using assms(1) by (simp add: one_open_order_def map_filter_snoc added_order_def)
qed

lemma step_one_open: "one_open_order s \<Longrightarrow> one_open_order (step s r)"
proof -
  assume inv: "one_open_order s"
  from step_cases [of s r] consider
      "orders (step s r) = orders s"
    | uid now where "open_orders s uid = []"
        "step s r = s\<lparr>orders := orders s @ [added_order s uid now]\<rparr>"
    by blast
  then show ?thesis
  proof cases
    case 1
    then show ?thesis using inv by (simp add: one_open_order_def)
  next
    case 2
    then show ?thesis using inv by (simp add: added_order_one_open)
  qed
qed

lemma run_one_open: "one_open_order s \<Longrightarrow> one_open_order (run s rs)"
  unfolding run_def
  by (induction rs arbitrary: s) (simp_all add: step_one_open)

lemma distinct_map_filter_length:
  "distinct (List.map_filter f xs) \<Longrightarrow> length (filter (\<lambda>x. f x = Some y) xs) \<le> 1"
proof (induction xs)
  case Nil
  then show ?case by simp
next
  case (Cons a xs)
  show ?case
  proof (cases "f a = Some y")
    case True
    with Cons.prems have "y \<notin> set (List.map_filter f xs)"
      by simp
    then have "filter (\<lambda>x. f x = Some y) xs = []"
      by (auto simp: set_map_filter filter_empty_conv)
    with True show ?thesis by simp
  next
    case False
    with Cons show ?thesis
      by (simp split: option.splits)
  qed
qed

subsection \<open>The handlers on the example data\<close>

lemma add_to_shop_db:
  "customer_add_item (Some (customer 7)) 1 post_form now shop_db =
     (Inl TypeError,
      shop_db\<lparr>orders := [\<lparr>order_num = 1, order_date = Some now,
        order_total_price = Some 0, order_user_id = Some 7,
        order_shipping_provider_id = Some 1\<rparr>]\<rparr>)"
  by (simp add: customer_add_item_cases customer_add_item_body_cases customer_def
      shop_db_def shirt_def post_form_def open_orders_def added_order_def next_id_def)

lemma add_again:
  "customer_add_item (Some (customer 7)) 1 post_form now'
     (shop_db\<lparr>orders := [\<lparr>order_num = 1, order_date = Some now,
        order_total_price = Some 0, order_user_id = Some 7,
        order_shipping_provider_id = Some 1\<rparr>]\<rparr>) =
     (Inl TypeError,
      shop_db\<lparr>orders := [\<lparr>order_num = 1, order_date = Some now,
        order_total_price = Some 0, order_user_id = Some 7,
        order_shipping_provider_id = Some 1\<rparr>]\<rparr>)"
  by (simp add: customer_add_item_cases customer_add_item_body_cases customer_def
      shop_db_def shirt_def post_form_def open_orders_def)

lemma is_customer_example: "is_customer (Some (customer n))"
  by (simp add: is_customer_def customer_def)

subsection \<open>Rounding to binary64\<close>





lemma to_double_zero [simp]: "to_double 0 = 0"
  by (simp add: to_double_def)









section \<open>The claims\<close>

text \<open>
  C1. After every add-item or remove-item request the stored \<open>total_price\<close> of an order
  is the sum of the prices of the items its rows of \<open>placed_in\<close> refer to.

  The code at the input: customer 7 has order 1 holding the shirt, stored total 20, and
  the shirt's price is now 30. Posting the add-item form raises TypeError in the condition
  of line 624, before the recomputation of lines 644 to 660; removing the shirt raises
  NameError at line 769 (and the handler has no recomputation at all). After either
  request the stored total is still 20 and the sum over the order's line items is 30.
\<close>

theorem total_price_stays_stale:
  "customer_add_item (Some (customer 7)) 1 post_form ''now'' repriced_db
     = (Inl TypeError, repriced_db)
   \<and> delete_order_item (Some (customer 7)) 1 repriced_db = (Inl NameError, repriced_db)
   \<and> map order_total_price (open_orders repriced_db 7) = [Some 20]
   \<and> map order_num (open_orders repriced_db 7) = [1]
   \<and> line_total repriced_db 1 = 30
   \<and> \<not> total_consistent
         (snd (customer_add_item (Some (customer 7)) 1 post_form ''now'' repriced_db))
   \<and> \<not> total_consistent (snd (delete_order_item (Some (customer 7)) 1 repriced_db))"
proof -
  have a: "customer_add_item (Some (customer 7)) 1 post_form ''now'' repriced_db
     = (Inl TypeError, repriced_db)"
    by (simp add: customer_add_item_cases customer_add_item_body_cases customer_def
        repriced_db_def cart_db_def shop_db_def shirt_def post_form_def open_orders_def)
  have b: "delete_order_item (Some (customer 7)) 1 repriced_db = (Inl NameError, repriced_db)"
    by (simp add: delete_order_item_cases customer_def)
  have c: "line_total repriced_db 1 = 30"
    by (simp add: line_total_def line_items_def repriced_db_def cart_db_def shop_db_def
        shirt_def)
  have d: "map order_total_price (open_orders repriced_db 7) = [Some 20]
      \<and> map order_num (open_orders repriced_db 7) = [1]"
    by (simp add: open_orders_def repriced_db_def cart_db_def shop_db_def)
  have e: "\<not> total_consistent repriced_db"
    by (simp add: total_consistent_def line_total_def line_items_def repriced_db_def
        cart_db_def shop_db_def shirt_def)
  show ?thesis using a b c d e by simp
qed

text \<open>
  C2. After an order is submitted no row of \<open>placed_in\<close> with its \<open>order_num\<close> is left.

  The code at the input: customer 7 has order 1 holding the shirt and posts the order form
  to \<open>view_order\<close>. The handler raises NameError at its first query, which names
  \<open>association_table\<close>; the store is unchanged, the row of \<open>placed_in\<close> of order 1 is
  still there and so is the order.
\<close>

theorem submit_keeps_line_items:
  "view_order (Some (customer 7)) True cart_db = (Inl NameError, cart_db)
   \<and> line_items cart_db 1 = [\<lparr>placed_item_id = 1, placed_order_num = 1\<rparr>]
   \<and> map order_num (open_orders cart_db 7) = [1]"
  by (simp add: view_order_cases customer_def)
     (simp add: line_items_def open_orders_def cart_db_def)

text \<open>
  C3. Adding an item to an order, removing one, viewing the order and submitting it leave
  the Item table as it was.
\<close>

theorem item_table_unchanged:
  "items (snd (customer_add_item cu iid form now s)) = items s
   \<and> items (snd (view_order cu submitted s)) = items s
   \<and> items (snd (delete_order_item cu iid s)) = items s"
  by (simp add: customer_add_item_cases customer_add_item_body_cases view_order_cases
      delete_order_item_cases split: option.splits)

theorem item_table_unchanged_witness:
  "items (snd (customer_add_item (Some (customer 7)) 1 post_form ''now'' cart_db)) = [shirt]
   \<and> items (snd (view_order (Some (customer 7)) True cart_db)) = [shirt]
   \<and> items (snd (delete_order_item (Some (customer 7)) 1 cart_db)) = [shirt]"
  using item_table_unchanged [of "Some (customer 7)" 1 post_form "''now''" cart_db True]
  by (simp add: cart_db_def shop_db_def)

text \<open>
  C4. For a customer without an order, adding an item stores a new order, a row of
  \<open>placed_in\<close> for the item, and a total equal to the item's price.

  The code at the input: customer 7 has no order and posts the form for the shirt, price
  20. The new order is stored with total 0, then \<open>Item.query.get(name=item_name)\<close> raises
  TypeError: no row of \<open>placed_in\<close> is stored and the total stays 0.
\<close>

theorem add_first_item_no_line_item:
  "customer_add_item (Some (customer 7)) 1 post_form ''now'' shop_db =
     (Inl TypeError,
      shop_db\<lparr>orders := [\<lparr>order_num = 1, order_date = Some ''now'',
        order_total_price = Some 0, order_user_id = Some 7,
        order_shipping_provider_id = Some 1\<rparr>]\<rparr>)
   \<and> placed (snd (customer_add_item (Some (customer 7)) 1 post_form ''now'' shop_db)) = []
   \<and> item_price shirt = 20"
  by (simp add: add_to_shop_db) (simp add: shop_db_def shirt_def)

text \<open>
  C5. Removing an item that is not a line item of the customer's open order, or removing
  when there is no open order, fails with NotFound.

  The code at the inputs: customer 7 has order 1 holding the shirt and removes the hat,
  which is in no order; customer 7 has no order and removes the shirt. Both requests raise
  NameError at line 769, as does the removal of the shirt that is in the order: the
  handler tells none of the three apart.
\<close>

theorem remove_item_name_error:
  "\<not> in_open_order two_item_db 7 2
   \<and> map order_num (open_orders two_item_db 7) = [1]
   \<and> delete_order_item (Some (customer 7)) 2 two_item_db = (Inl NameError, two_item_db)
   \<and> open_orders shop_db 7 = []
   \<and> delete_order_item (Some (customer 7)) 1 shop_db = (Inl NameError, shop_db)
   \<and> in_open_order cart_db 7 1
   \<and> delete_order_item (Some (customer 7)) 1 cart_db = (Inl NameError, cart_db)"
proof -
  have a: "delete_order_item (Some (customer 7)) k s = (Inl NameError, s)" for k s
    by (simp add: delete_order_item_cases customer_def)
  have b: "\<not> in_open_order two_item_db 7 2 \<and> map order_num (open_orders two_item_db 7) = [1]"
    by (simp add: in_open_order_def open_orders_def two_item_db_def cart_db_def shop_db_def)
  have c: "open_orders shop_db 7 = [] \<and> in_open_order cart_db 7 1"
    by (simp add: in_open_order_def open_orders_def cart_db_def shop_db_def)
  show ?thesis using a b c by simp
qed

text \<open>
  C6. In every store reached by sign-up, add-item, remove-item, view and submit requests,
  a customer has at most one open order.
\<close>

theorem at_most_one_open_order:
  "one_open_order s \<Longrightarrow> length (open_orders (run s rs) uid) \<le> 1"
proof -
  assume "one_open_order s"
  then have "one_open_order (run s rs)" by (rule run_one_open)
  then show ?thesis
    unfolding one_open_order_def open_orders_def by (rule distinct_map_filter_length)
qed

theorem at_most_one_open_order_witness:
  "one_open_order shop_db
   \<and> length (open_orders (run shop_db
        [AddItem (Some (customer 7)) 1 post_form ''t1'',
         AddItem (Some (customer 7)) 1 post_form ''t2'',
         DeleteOrderItem (Some (customer 7)) 1,
         ViewOrder (Some (customer 7)) True,
         AddItem (Some (customer 7)) 1 post_form ''t3'',
         SignUp new_customer_form]) 7) \<le> 1
   \<and> map order_date (open_orders (run shop_db
        [AddItem (Some (customer 7)) 1 post_form ''t1'',
         AddItem (Some (customer 7)) 1 post_form ''t2'',
         DeleteOrderItem (Some (customer 7)) 1,
         ViewOrder (Some (customer 7)) True,
         AddItem (Some (customer 7)) 1 post_form ''t3'',
         SignUp new_customer_form]) 7) = [Some ''t1'']"
proof -
  let ?rs = "[AddItem (Some (customer 7)) 1 post_form ''t1'',
         AddItem (Some (customer 7)) 1 post_form ''t2'',
         DeleteOrderItem (Some (customer 7)) 1,
         ViewOrder (Some (customer 7)) True,
         AddItem (Some (customer 7)) 1 post_form ''t3'']"
  let ?t = "shop_db\<lparr>orders := [\<lparr>order_num = 1, order_date = Some ''t1'',
        order_total_price = Some 0, order_user_id = Some 7,
        order_shipping_provider_id = Some 1\<rparr>]\<rparr>"
  have inv: "one_open_order shop_db"
    by (simp add: one_open_order_def shop_db_def)
  have s1: "step shop_db (AddItem (Some (customer 7)) 1 post_form ''t1'') = ?t"
    by (simp add: step_def add_to_shop_db)
  have s2: "step ?t (AddItem (Some (customer 7)) 1 post_form now) = ?t" for now
    by (simp add: step_def add_again)
  have r: "run shop_db ?rs = ?t"
    by (simp add: run_def s1 s2 step_DeleteOrderItem step_ViewOrder)
  have "run shop_db (?rs @ [SignUp new_customer_form]) = step ?t (SignUp new_customer_form)"
    using r by (simp add: run_def)
  moreover have "orders (step ?t (SignUp new_customer_form)) = orders ?t"
    using sign_up_frame [of new_customer_form ?t] by (simp add: step_def)
  ultimately have "open_orders (run shop_db (?rs @ [SignUp new_customer_form])) 7
      = open_orders ?t 7"
    by (simp add: open_orders_def)
  then have "map order_date (open_orders (run shop_db (?rs @ [SignUp new_customer_form])) 7)
      = [Some ''t1'']"
    by (simp add: open_orders_def)
  then show ?thesis
    using at_most_one_open_order [of shop_db "?rs @ [SignUp new_customer_form]" 7] inv
    by simp
qed

text \<open>
  C7. \<open>view_order\<close> for a customer without an open order fails with NotFound.

  The code at the input: customer 7 has no order and opens the order page. The handler
  raises NameError at its first query (line 725), as it does for a customer who has an
  order.
\<close>

theorem view_order_name_error:
  "open_orders shop_db 7 = []
   \<and> view_order (Some (customer 7)) False shop_db = (Inl NameError, shop_db)
   \<and> map order_num (open_orders cart_db 7) = [1]
   \<and> view_order (Some (customer 7)) False cart_db = (Inl NameError, cart_db)"
  by (simp add: view_order_cases customer_def)
     (simp add: open_orders_def cart_db_def shop_db_def)




text \<open>
  C9. The module cannot be loaded: whatever attributes the libraries offer, running the
  top level ends in an exception (at the latest at the class Item, which reads the unbound
  name \<open>association_table\<close>), and at that moment none of the view functions of the order
  subsystem is bound. With the libraries as installed the run ends with AttributeError, at
  \<open>db.ForiegnKey\<close> in the class PlacedIn.
\<close>

theorem module_cannot_load:
  "(\<exists>e. fst (load_module ha) = Some e)
   \<and> (\<forall>f \<in> set order_operations. f \<notin> set (snd (load_module ha)))
   \<and> fst (load_module installed) = Some AttributeError
   \<and> ''PlacedIn'' \<notin> set (snd (load_module installed))"
proof -
  have "\<forall>f \<in> set order_operations.
          f \<notin> set builtins \<union> set (concat (map binds before_Item))"
    by (simp add: order_operations_def builtins_def binds_before_Item)
  then show ?thesis using load_module_fails [of ha] by (auto simp: load_installed)
qed

theorem module_cannot_load_witness:
  "fst (load_module installed) = Some AttributeError
   \<and> ''customer_add_item'' \<notin> set (snd (load_module installed))
   \<and> ''view_order'' \<notin> set (snd (load_module installed))
   \<and> ''delete_order_item'' \<notin> set (snd (load_module installed))"
  using module_cannot_load [of installed] by (simp add: order_operations_def)

text \<open>
  C10. For a customer who already has an order, a posted add-item form never adds the
  item: the handler raises (TypeError from \<open>Item.query.get(name=item_name)\<close> in the
  condition, or AttributeError before it when the item does not exist) and the store is
  unchanged. The branch for an existing order, entered on its own, raises as well and
  stores nothing.
\<close>

theorem add_to_existing_order_raises:
  "is_customer (Some u) \<Longrightarrow> form_submitted form \<Longrightarrow> open_orders s (user_id u) \<noteq> [] \<Longrightarrow>
   (customer_add_item (Some u) iid form now s = (Inl TypeError, s)
    \<or> customer_add_item (Some u) iid form now s = (Inl AttributeError, s))
   \<and> (\<exists>e. existing_order_branch (Some u) (form_name form) s = (Inl e, s))"
  by (simp add: customer_add_item_cases customer_add_item_body_cases is_customer_def
      existing_order_branch_result)

theorem add_to_existing_order_raises_witness:
  "is_customer (Some (customer 7)) \<and> form_submitted post_form
   \<and> open_orders cart_db 7 \<noteq> []
   \<and> customer_add_item (Some (customer 7)) 1 post_form ''now'' cart_db
       = (Inl TypeError, cart_db)"
proof -
  have a: "is_customer (Some (customer 7))" by (rule is_customer_example)
  have b: "form_submitted post_form" by (simp add: post_form_def)
  have c: "open_orders cart_db (user_id (customer 7)) \<noteq> []"
    by (simp add: open_orders_def cart_db_def shop_db_def customer_def)
  have d: "user_id (customer 7) = 7" by (simp add: customer_def)
  have e: "filter (\<lambda>r. item_id r = 1) (items cart_db) \<noteq> []"
    by (simp add: cart_db_def shop_db_def shirt_def)
  have "customer_add_item (Some (customer 7)) 1 post_form ''now'' cart_db
       \<noteq> (Inl AttributeError, cart_db)"
    using a b c e
    by (simp add: customer_add_item_cases customer_add_item_body_cases is_customer_def)
  then show ?thesis
    using add_to_existing_order_raises [OF a b c, of 1 "''now''"] a b c d by auto
qed

end
